theory Spec2Isabelle
  imports Complex_Main
begin

section \<open>EarVan audio engine: data model\<close>

text \<open>
  A shallow embedding of \<^verbatim>\<open>audioEngine.ts\<close> (class \<^verbatim>\<open>AudioEngine\<close>).
  JavaScript numbers are modelled as reals (no NaN, no rounding); strings are byte
  strings. The Web Audio nodes are records of the parameters the engine reads or writes.
  Every method of the class is a function from the engine state to the new engine state;
  a method that can throw returns the raised error beside the state it leaves behind.
\<close>

subsection \<open>Types of \<^verbatim>\<open>types.ts\<close>\<close>

datatype EnvironmentMode = QUIET | CONVERSATION | NOISY

text \<open>A JavaScript object keyed by band frequency is a partial map from the frequency.\<close>

record HearingProfile =
  name :: string
  eqBands :: "nat \<rightharpoonup> real"

subsection \<open>Constants\<close>

definition EQ_FREQUENCIES :: "nat list" where
  "EQ_FREQUENCIES = [500, 1000, 2000, 4000, 8000]"

definition FFT_SIZE :: nat where
  "FFT_SIZE = 1024"

definition SMOOTHING :: real where
  "SMOOTHING = 0.8"

record EnvPreset =
  gainOffset :: real
  eqOffsets :: "nat \<rightharpoonup> real"
  highpassFreq :: real
  compressorThreshold :: real
  compressorRatio :: real

fun ENV_PRESETS :: "EnvironmentMode \<Rightarrow> EnvPreset" where
  "ENV_PRESETS QUIET =
     \<lparr>gainOffset = 0, eqOffsets = Map.empty, highpassFreq = 1,
      compressorThreshold = -24, compressorRatio = 4\<rparr>"
| "ENV_PRESETS CONVERSATION =
     \<lparr>gainOffset = 0.15,
      eqOffsets = [500 \<mapsto> -5, 1000 \<mapsto> 6, 2000 \<mapsto> 8, 4000 \<mapsto> 4, 8000 \<mapsto> -2],
      highpassFreq = 150, compressorThreshold = -30, compressorRatio = 6\<rparr>"
| "ENV_PRESETS NOISY =
     \<lparr>gainOffset = 0.25,
      eqOffsets = [500 \<mapsto> -10, 1000 \<mapsto> 2, 2000 \<mapsto> 6, 4000 \<mapsto> 4, 8000 \<mapsto> -6],
      highpassFreq = 400, compressorThreshold = -20, compressorRatio = 10\<rparr>"

definition MILD_LOSS_BOOSTS :: "nat \<rightharpoonup> real" where
  "MILD_LOSS_BOOSTS = [2000 \<mapsto> 3, 4000 \<mapsto> 5, 8000 \<mapsto> 6]"

definition SPEECH_FOCUS_BOOSTS :: "nat \<rightharpoonup> real" where
  "SPEECH_FOCUS_BOOSTS = [500 \<mapsto> -3, 1000 \<mapsto> 6, 2000 \<mapsto> 8, 4000 \<mapsto> 4]"

definition BALANCED_BOOSTS :: "nat \<rightharpoonup> real" where
  "BALANCED_BOOSTS = [500 \<mapsto> 1, 1000 \<mapsto> 2, 2000 \<mapsto> 2, 4000 \<mapsto> 1]"

subsection \<open>JavaScript helpers\<close>

text \<open>\<^verbatim>\<open>x ?? 0\<close>: the value, or 0 when the lookup gave \<^verbatim>\<open>undefined\<close>.\<close>

definition orZero :: "real option \<Rightarrow> real" where
  "orZero v = (case v of None \<Rightarrow> 0 | Some x \<Rightarrow> x)"

text \<open>
  \<^verbatim>\<open>obj[freq]\<close> where \<^verbatim>\<open>freq = EQ_FREQUENCIES[i]\<close> may itself be \<^verbatim>\<open>undefined\<close>
  (index out of range): the lookup then finds nothing.
\<close>

definition lookup :: "(nat \<rightharpoonup> real) \<Rightarrow> nat option \<Rightarrow> real option" where
  "lookup m freq = (case freq of None \<Rightarrow> None | Some f \<Rightarrow> m f)"

definition at_index :: "'a list \<Rightarrow> nat \<Rightarrow> 'a option" where
  "at_index xs i = (if i < length xs then Some (xs ! i) else None)"

text \<open>
  \<^verbatim>\<open>toLowerCase\<close>, on strings as UTF-8 bytes: the letters \<open>A\<close>..\<open>Z\<close> become
  \<open>a\<close>..\<open>z\<close>, every other byte stays. The engine only searches the result for the
  ASCII keywords \<open>mild\<close>, \<open>speech\<close> and \<open>balanced\<close>. Outside ASCII, JavaScript
  lower-cases only U+212A to an ASCII letter alone (\<open>k\<close>, in no keyword) and U+0130 to
  \<open>i\<close> followed by U+0307 (so never \<open>i\<close> next to \<open>l\<close>); the three searches therefore
  give the same answers here as in JavaScript.
\<close>

definition toLowerChar :: "char \<Rightarrow> char" where
  "toLowerChar c =
     (let n = (of_char c :: nat) in if 65 \<le> n \<and> n \<le> 90 then char_of (n + 32) else c)"

definition toLowerCase :: "string \<Rightarrow> string" where
  "toLowerCase s = map toLowerChar s"

fun startsWith :: "string \<Rightarrow> string \<Rightarrow> bool" where
  "startsWith s [] = True"
| "startsWith [] (p # ps) = False"
| "startsWith (c # cs) (p # ps) = (c = p \<and> startsWith cs ps)"

text \<open>\<^verbatim>\<open>s.includes(pat)\<close>: \<open>pat\<close> occurs in \<open>s\<close> as a contiguous substring.\<close>

fun str_includes :: "string \<Rightarrow> string \<Rightarrow> bool" where
  "str_includes [] pat = (pat = [])"
| "str_includes (c # cs) pat = (startsWith (c # cs) pat \<or> str_includes cs pat)"

subsection \<open>Web Audio nodes\<close>

text \<open>
  An \<^verbatim>\<open>AudioParam\<close>: \<open>pvalue\<close> is what was last assigned to \<^verbatim>\<open>.value\<close>,
  \<open>ptarget\<close> the target of the last \<^verbatim>\<open>setTargetAtTime\<close> (\<open>None\<close>: none scheduled).
  The engine passes the same time constant (0.05 s) in every call; the approach of the
  live value to the target over real time is the platform's and is not modelled.
\<close>

record AudioParam =
  pvalue :: real
  ptarget :: "real option"

definition setTargetAtTime :: "real \<Rightarrow> AudioParam \<Rightarrow> AudioParam" where
  "setTargetAtTime t p = p\<lparr>ptarget := Some t\<rparr>"

definition paramAt :: "real \<Rightarrow> AudioParam" where
  "paramAt v = \<lparr>pvalue = v, ptarget = None\<rparr>"

datatype AudioContextState = suspended | running | closed

record AudioContext =
  state :: AudioContextState
  sampleRate :: nat

record MediaStream =
  active :: bool

datatype BiquadFilterType = highpass | peaking

record GainNode =
  gn_gain :: AudioParam

record BiquadFilterNode =
  bq_type :: BiquadFilterType
  bq_frequency :: AudioParam
  bq_Q :: AudioParam
  bq_gain :: AudioParam

record DynamicsCompressorNode =
  threshold :: AudioParam
  knee :: AudioParam
  ratio :: AudioParam
  attack :: AudioParam
  release :: AudioParam

text \<open>
  \<open>frequencyData\<close> is the byte frequency data the node hands to
  \<^verbatim>\<open>getByteFrequencyData\<close>. The platform computes it from the audio that flows
  through the node while the context renders; no method of the engine writes it.
\<close>

record AnalyserNode =
  fftSize :: nat
  smoothingTimeConstant :: real
  minDecibels :: real
  maxDecibels :: real
  frequencyData :: "nat list"

definition getByteFrequencyData :: "AnalyserNode \<Rightarrow> nat list" where
  "getByteFrequencyData a = frequencyData a"

datatype MediaStreamAudioSourceNode = MediaStreamSource

record AudioBufferSourceNode =
  loop :: bool
  started :: bool

text \<open>
  The connections between the nodes the engine holds, as edges between the fields that
  hold them.
\<close>

datatype NodeRef =
  MicSourceRef | TestSourceRef | GainRef | HighpassRef | EqRef nat
  | CompressorRef | AnalyserRef | DestinationRef

type_synonym edges = "(NodeRef \<times> NodeRef) list"

definition connect :: "NodeRef \<Rightarrow> NodeRef \<Rightarrow> edges \<Rightarrow> edges" where
  "connect a b es = (if (a, b) \<in> set es then es else es @ [(a, b)])"

definition disconnect :: "NodeRef \<Rightarrow> edges \<Rightarrow> edges" where
  "disconnect a es = filter (\<lambda>e. fst e \<noteq> a) es"

subsection \<open>The engine state\<close>

text \<open>The fields of the class; \<open>audioContext\<close> is the field \<^verbatim>\<open>context\<close>, and
  \<open>isRunning_flag\<close> the field \<^verbatim>\<open>_isRunning\<close>.\<close>

record AudioEngine =
  audioContext :: "AudioContext option"
  stream :: "MediaStream option"
  micSource :: "MediaStreamAudioSourceNode option"
  testSource :: "AudioBufferSourceNode option"
  gainNode :: "GainNode option"
  highpassFilter :: "BiquadFilterNode option"
  eqFilters :: "BiquadFilterNode list"
  compressor :: "DynamicsCompressorNode option"
  analyser :: "AnalyserNode option"
  connections :: edges
  isRunning_flag :: bool
  currentMode :: EnvironmentMode
  currentProfile :: "HearingProfile option"
  isBypassed :: bool
  isTesting :: bool

text \<open>The field initialisers of the class.\<close>

definition newEngine :: AudioEngine where
  "newEngine =
     \<lparr>audioContext = None, stream = None, micSource = None, testSource = None,
      gainNode = None, highpassFilter = None, eqFilters = [], compressor = None,
      analyser = None, connections = [], isRunning_flag = False, currentMode = QUIET,
      currentProfile = None, isBypassed = False, isTesting = False\<rparr>"

text \<open>
  What the platform answers during a call: the outcome of \<^verbatim>\<open>getUserMedia\<close> and the
  state in which a newly constructed \<^verbatim>\<open>AudioContext\<close> is observed.
\<close>

datatype MicResult = Granted | NotAllowedError | NotFoundError | OtherError string

record Platform =
  getUserMedia :: MicResult
  newContextState :: AudioContextState

text \<open>The three errors \<^verbatim>\<open>_attachMicrophone\<close> throws.\<close>

datatype error = MicPermissionDenied | NoMicrophoneFound | MicrophoneError string

section \<open>The methods of the engine\<close>

subsection \<open>Initialisation\<close>

definition newEqFilter :: "nat \<Rightarrow> BiquadFilterNode" where
  "newEqFilter freq =
     \<lparr>bq_type = peaking, bq_frequency = paramAt (real freq), bq_Q = paramAt 1.4,
      bq_gain = paramAt 0\<rparr>"

definition newGainNode :: GainNode where
  "newGainNode = \<lparr>gn_gain = paramAt 1.0\<rparr>"

definition newHighpassFilter :: BiquadFilterNode where
  "newHighpassFilter =
     \<lparr>bq_type = highpass, bq_frequency = paramAt 1, bq_Q = paramAt 0.7,
      bq_gain = paramAt 0\<rparr>"

definition newCompressor :: DynamicsCompressorNode where
  "newCompressor =
     \<lparr>threshold = paramAt (-24), knee = paramAt 30, ratio = paramAt 4,
      attack = paramAt 0.003, release = paramAt 0.15\<rparr>"

text \<open>A new analyser has seen no audio: its frequency data is all zero.\<close>

definition newAnalyser :: AnalyserNode where
  "newAnalyser =
     \<lparr>fftSize = FFT_SIZE, smoothingTimeConstant = SMOOTHING, minDecibels = -90,
      maxDecibels = -10, frequencyData = replicate (FFT_SIZE div 2) 0\<rparr>"

text \<open>The \<^verbatim>\<open>forEach\<close> of \<^verbatim>\<open>_connectStaticChain\<close>: each filter is connected behind
  the node before it.\<close>

fun connectEach :: "NodeRef \<Rightarrow> nat \<Rightarrow> BiquadFilterNode list \<Rightarrow> edges \<Rightarrow> NodeRef \<times> edges" where
  "connectEach node i [] es = (node, es)"
| "connectEach node i (f # fs) es =
     connectEach (EqRef i) (Suc i) fs (connect node (EqRef i) es)"

definition connectStaticChain :: "AudioEngine \<Rightarrow> AudioEngine" where
  "connectStaticChain s =
     (if audioContext s = None then s
      else
        let es1 = connect GainRef HighpassRef (connections s);
            (node, es2) = connectEach HighpassRef 0 (eqFilters s) es1;
            es3 = connect node CompressorRef es2;
            es4 = connect CompressorRef AnalyserRef es3;
            es5 = connect AnalyserRef DestinationRef es4
        in s\<lparr>connections := es5\<rparr>)"

text \<open>
  \<^verbatim>\<open>_attachMicrophone\<close>. A failing \<^verbatim>\<open>getUserMedia\<close> throws after the old test
  source has been cleaned up, so the error comes with the state reached by then.
\<close>

definition attachMicrophone :: "Platform \<Rightarrow> AudioEngine \<Rightarrow> error option \<times> AudioEngine" where
  "attachMicrophone pf s =
     (if audioContext s = None then (None, s)
      else
        let s1 = (if testSource s \<noteq> None
                  then s\<lparr>connections := disconnect TestSourceRef (connections s),
                         testSource := None, isTesting := False\<rparr>
                  else s);
            connectMic = (\<lambda>t.
              let es = (if micSource t \<noteq> None
                        then disconnect MicSourceRef (connections t) else connections t)
              in t\<lparr>micSource := Some MediaStreamSource,
                    connections := connect MicSourceRef GainRef es\<rparr>)
        in if (case stream s1 of None \<Rightarrow> True | Some m \<Rightarrow> \<not> active m)
           then (case getUserMedia pf of
                   Granted \<Rightarrow> (None, connectMic (s1\<lparr>stream := Some \<lparr>active = True\<rparr>\<rparr>))
                 | NotAllowedError \<Rightarrow> (Some MicPermissionDenied, s1)
                 | NotFoundError \<Rightarrow> (Some NoMicrophoneFound, s1)
                 | OtherError msg \<Rightarrow> (Some (MicrophoneError msg), s1))
           else (None, connectMic s1))"

text \<open>
  \<^verbatim>\<open>initialize\<close>. With a context it only resumes; without one it builds a new context
  and a new graph (\<open>buildGraph\<close>), whatever the engine held before, connects the static
  chain and attaches the microphone. The new nodes replace the old ones in every field,
  so no earlier connection is one between the nodes now held.
\<close>

definition buildGraph :: "Platform \<Rightarrow> AudioEngine \<Rightarrow> AudioEngine" where
  "buildGraph pf s =
     s\<lparr>audioContext := Some \<lparr>state = newContextState pf, sampleRate = 44100\<rparr>,
       gainNode := Some newGainNode,
       highpassFilter := Some newHighpassFilter,
       eqFilters := map newEqFilter EQ_FREQUENCIES,
       compressor := Some newCompressor,
       analyser := Some newAnalyser,
       connections := []\<rparr>"

definition initialize :: "Platform \<Rightarrow> AudioEngine \<Rightarrow> error option \<times> AudioEngine" where
  "initialize pf s =
     (case audioContext s of
        Some c \<Rightarrow>
          (None, s\<lparr>audioContext := Some (if state c = suspended then c\<lparr>state := running\<rparr> else c),
                   isRunning_flag := True\<rparr>)
      | None \<Rightarrow>
          (case attachMicrophone pf (connectStaticChain (buildGraph pf s)) of
             (Some e, s3) \<Rightarrow> (Some e, s3)
           | (None, s3) \<Rightarrow> (None, s3\<lparr>isRunning_flag := True\<rparr>)))"

subsection \<open>DSP application\<close>

text \<open>The choice of the boost by the lower-cased profile name (the \<^verbatim>\<open>if\<close> chain of
  the callback).\<close>

definition specificBoost :: "string \<Rightarrow> nat option \<Rightarrow> real" where
  "specificBoost profileName freq =
     (if str_includes profileName ''mild'' then orZero (lookup MILD_LOSS_BOOSTS freq)
      else if str_includes profileName ''speech'' then orZero (lookup SPEECH_FOCUS_BOOSTS freq)
      else if str_includes profileName ''balanced'' then orZero (lookup BALANCED_BOOSTS freq)
      else 0)"

text \<open>The callback of \<^verbatim>\<open>this.eqFilters.forEach((filter, i) => ...)\<close>.\<close>

definition applyEqFilter :: "AudioEngine \<Rightarrow> EnvPreset \<Rightarrow> BiquadFilterNode \<Rightarrow> nat \<Rightarrow> BiquadFilterNode" where
  "applyEqFilter s preset flt i =
     (let freq = at_index EQ_FREQUENCIES i in
      if isBypassed s then flt\<lparr>bq_gain := setTargetAtTime 0 (bq_gain flt)\<rparr>
      else
        let profileGain =
              (case currentProfile s of None \<Rightarrow> 0 | Some p \<Rightarrow> orZero (lookup (eqBands p) freq));
            profileName =
              (case currentProfile s of None \<Rightarrow> [] | Some p \<Rightarrow> toLowerCase (name p));
            envOffset = orZero (lookup (eqOffsets preset) freq);
            total = max (-18) (min 18 (profileGain + specificBoost profileName freq + envOffset))
        in flt\<lparr>bq_gain := setTargetAtTime total (bq_gain flt)\<rparr>)"

fun forEachEq :: "AudioEngine \<Rightarrow> EnvPreset \<Rightarrow> nat \<Rightarrow> BiquadFilterNode list \<Rightarrow> BiquadFilterNode list" where
  "forEachEq s preset i [] = []"
| "forEachEq s preset i (f # fs) = applyEqFilter s preset f i # forEachEq s preset (Suc i) fs"

definition applyHighpass :: "AudioEngine \<Rightarrow> EnvPreset \<Rightarrow> BiquadFilterNode \<Rightarrow> BiquadFilterNode" where
  "applyHighpass s preset h =
     h\<lparr>bq_frequency :=
         setTargetAtTime (if isBypassed s then 1 else highpassFreq preset) (bq_frequency h)\<rparr>"

definition applyCompressor :: "AudioEngine \<Rightarrow> EnvPreset \<Rightarrow> DynamicsCompressorNode \<Rightarrow> DynamicsCompressorNode" where
  "applyCompressor s preset c =
     c\<lparr>threshold :=
         setTargetAtTime (if isBypassed s then -60 else compressorThreshold preset) (threshold c),
       ratio :=
         setTargetAtTime (if isBypassed s then 1 else compressorRatio preset) (ratio c)\<rparr>"

definition applyGain :: "AudioEngine \<Rightarrow> EnvPreset \<Rightarrow> GainNode \<Rightarrow> GainNode" where
  "applyGain s preset g =
     g\<lparr>gn_gain :=
         setTargetAtTime (if isBypassed s then 0 else 1.0 + gainOffset preset) (gn_gain g)\<rparr>"

text \<open>\<^verbatim>\<open>_applySettings\<close>: nothing happens without a context or without a profile.\<close>

definition applySettings :: "AudioEngine \<Rightarrow> AudioEngine" where
  "applySettings s =
     (if audioContext s = None \<or> currentProfile s = None then s
      else
        let preset = ENV_PRESETS (currentMode s) in
        s\<lparr>highpassFilter := map_option (applyHighpass s preset) (highpassFilter s),
          eqFilters := forEachEq s preset 0 (eqFilters s),
          compressor := map_option (applyCompressor s preset) (compressor s),
          gainNode := map_option (applyGain s preset) (gainNode s)\<rparr>)"

subsection \<open>Public controls\<close>

definition start :: "Platform \<Rightarrow> AudioEngine \<Rightarrow> error option \<times> AudioEngine" where
  "start pf s =
     (case initialize pf s of
        (Some e, s1) \<Rightarrow> (Some e, s1)
      | (None, s1) \<Rightarrow> (None, applySettings (s1\<lparr>isBypassed := False\<rparr>)))"

definition suspend :: "AudioEngine \<Rightarrow> AudioEngine" where
  "suspend s =
     (let s1 = (case audioContext s of
                  None \<Rightarrow> s
                | Some c \<Rightarrow>
                    if state c = running then s\<lparr>audioContext := Some (c\<lparr>state := suspended\<rparr>)\<rparr>
                    else s)
      in s1\<lparr>isRunning_flag := False, isBypassed := True\<rparr>)"

text \<open>\<^verbatim>\<open>destroy\<close> closes the context and forgets it; the graph nodes stay in their fields.\<close>

definition destroy :: "AudioEngine \<Rightarrow> AudioEngine" where
  "destroy s =
     s\<lparr>stream := None, testSource := None, audioContext := None, micSource := None,
       isRunning_flag := False, isTesting := False\<rparr>"

definition stop :: "AudioEngine \<Rightarrow> AudioEngine" where
  "stop s = destroy s"

text \<open>
  \<^verbatim>\<open>startTestAudio\<close>. The samples of the noise buffer come from \<^verbatim>\<open>Math.random\<close> and
  are not part of the model.
\<close>

definition startTestAudio :: "AudioEngine \<Rightarrow> AudioEngine" where
  "startTestAudio s =
     (if audioContext s = None \<or> isTesting s then s
      else
        let es = (if micSource s \<noteq> None
                  then disconnect MicSourceRef (connections s) else connections s)
        in s\<lparr>isTesting := True,
              testSource := Some \<lparr>loop = True, started = True\<rparr>,
              connections := connect TestSourceRef GainRef es\<rparr>)"

definition stopTestAudio :: "Platform \<Rightarrow> AudioEngine \<Rightarrow> error option \<times> AudioEngine" where
  "stopTestAudio pf s =
     (let s1 = s\<lparr>isTesting := False\<rparr>;
          s2 = (if testSource s1 \<noteq> None
                then s1\<lparr>connections := disconnect TestSourceRef (connections s1),
                        testSource := None\<rparr>
                else s1)
      in attachMicrophone pf s2)"

definition setProfile :: "HearingProfile \<Rightarrow> AudioEngine \<Rightarrow> AudioEngine" where
  "setProfile profile s = applySettings (s\<lparr>currentProfile := Some profile\<rparr>)"

definition setEnvironment :: "EnvironmentMode \<Rightarrow> AudioEngine \<Rightarrow> AudioEngine" where
  "setEnvironment mode s = applySettings (s\<lparr>currentMode := mode\<rparr>)"

definition setBypass :: "bool \<Rightarrow> AudioEngine \<Rightarrow> AudioEngine" where
  "setBypass bypass s = applySettings (s\<lparr>isBypassed := bypass\<rparr>)"

definition setMasterVolume :: "real \<Rightarrow> AudioEngine \<Rightarrow> AudioEngine" where
  "setMasterVolume v s =
     (case gainNode s of
        None \<Rightarrow> s
      | Some g \<Rightarrow>
          if audioContext s = None then s
          else s\<lparr>gainNode := Some (g\<lparr>gn_gain := setTargetAtTime (max 0 (min 4 v)) (gn_gain g)\<rparr>)\<rparr>)"

subsection \<open>Getters\<close>

definition getAnalyser :: "AudioEngine \<Rightarrow> AnalyserNode option" where
  "getAnalyser s = analyser s"

definition isRunning :: "AudioEngine \<Rightarrow> bool" where
  "isRunning s =
     (isRunning_flag s \<and> (case audioContext s of None \<Rightarrow> False | Some c \<Rightarrow> state c = running))"

subsection \<open>Histories of an engine\<close>

text \<open>
  What can happen to an engine: a caller invokes a public method (the platform answers
  as \<open>pf\<close> says), or the platform renders audio through a running context and leaves new
  frequency data in the analyser.
\<close>

datatype Op =
  Initialize | Start | Suspend | Destroy | Stop | StartTestAudio | StopTestAudio
  | SetProfile HearingProfile | SetEnvironment EnvironmentMode | SetBypass bool
  | SetMasterVolume real

fun exec :: "Platform \<Rightarrow> Op \<Rightarrow> AudioEngine \<Rightarrow> error option \<times> AudioEngine" where
  "exec pf Initialize s = initialize pf s"
| "exec pf Start s = start pf s"
| "exec pf Suspend s = (None, suspend s)"
| "exec pf Destroy s = (None, destroy s)"
| "exec pf Stop s = (None, stop s)"
| "exec pf StartTestAudio s = (None, startTestAudio s)"
| "exec pf StopTestAudio s = stopTestAudio pf s"
| "exec pf (SetProfile p) s = (None, setProfile p s)"
| "exec pf (SetEnvironment m) s = (None, setEnvironment m s)"
| "exec pf (SetBypass b) s = (None, setBypass b s)"
| "exec pf (SetMasterVolume v) s = (None, setMasterVolume v s)"

definition audioRendered :: "nat list \<Rightarrow> AudioEngine \<Rightarrow> AudioEngine" where
  "audioRendered d s =
     (case audioContext s of
        None \<Rightarrow> s
      | Some c \<Rightarrow>
          if state c = running
          then s\<lparr>analyser := map_option (\<lambda>a. a\<lparr>frequencyData := d\<rparr>) (analyser s)\<rparr>
          else s)"

datatype Event = Call Platform Op | AudioRendered "nat list"

fun step :: "Event \<Rightarrow> AudioEngine \<Rightarrow> AudioEngine" where
  "step (Call pf op) s = snd (exec pf op s)"
| "step (AudioRendered d) s = audioRendered d s"

text \<open>A caller that catches the error of a call goes on with the engine as the call left it.\<close>

fun run :: "Event list \<Rightarrow> AudioEngine \<Rightarrow> AudioEngine" where
  "run [] s = s"
| "run (e # es) s = run es (step e s)"

fun isStart :: "Event \<Rightarrow> bool" where
  "isStart (Call pf Initialize) = True"
| "isStart (Call pf Start) = True"
| "isStart e = False"

section \<open>Observations and invariants\<close>

text \<open>The stage parameters: master gain, high-pass filter, EQ bank, compressor.\<close>

definition stages ::
  "AudioEngine \<Rightarrow>
     GainNode option \<times> BiquadFilterNode option \<times> BiquadFilterNode list \<times>
     DynamicsCompressorNode option" where
  "stages s = (gainNode s, highpassFilter s, eqFilters s, compressor s)"

text \<open>The target of the master gain (\<open>None\<close>: no gain node, or no target scheduled).\<close>

definition masterGainTarget :: "AudioEngine \<Rightarrow> real option" where
  "masterGainTarget s = (case gainNode s of None \<Rightarrow> None | Some g \<Rightarrow> ptarget (gn_gain g))"

text \<open>The connections that do not start at a source node: the static chain.\<close>

definition staticEdges :: "edges \<Rightarrow> edges" where
  "staticEdges es = filter (\<lambda>e. fst e \<noteq> MicSourceRef \<and> fst e \<noteq> TestSourceRef) es"

text \<open>Everything behind the source node: all of the engine except the stream, the two
  source nodes, their connections and the testing flag.\<close>

definition behindSource ::
  "AudioEngine \<Rightarrow>
     AudioContext option \<times>
     (GainNode option \<times> BiquadFilterNode option \<times> BiquadFilterNode list \<times>
      DynamicsCompressorNode option) \<times>
     AnalyserNode option \<times> edges \<times> bool \<times> EnvironmentMode \<times> HearingProfile option \<times> bool" where
  "behindSource s =
     (audioContext s, stages s, analyser s, staticEdges (connections s), isRunning_flag s,
      currentMode s, currentProfile s, isBypassed s)"

text \<open>The graph is built: every stage is there, and the EQ bank has one filter for each
  of the five frequencies, in their order.\<close>

definition graphBuilt :: "AudioEngine \<Rightarrow> bool" where
  "graphBuilt s =
     (gainNode s \<noteq> None \<and> highpassFilter s \<noteq> None \<and> compressor s \<noteq> None \<and>
      analyser s \<noteq> None \<and>
      map (\<lambda>f. pvalue (bq_frequency f)) (eqFilters s) = map real EQ_FREQUENCIES)"

definition graphInv :: "AudioEngine \<Rightarrow> bool" where
  "graphInv s = (audioContext s = None \<or> graphBuilt s)"

subsection \<open>Concrete inputs\<close>

text \<open>A platform that grants the microphone and runs a new context.\<close>

definition okPlatform :: Platform where
  "okPlatform = \<lparr>getUserMedia = Granted, newContextState = running\<rparr>"

text \<open>A platform on which the user refuses the microphone.\<close>

definition deniedPlatform :: Platform where
  "deniedPlatform = \<lparr>getUserMedia = NotAllowedError, newContextState = running\<rparr>"

definition speechFocusProfile :: HearingProfile where
  "speechFocusProfile =
     \<lparr>name = ''Speech Focus Profile'',
      eqBands = [500 \<mapsto> -2, 1000 \<mapsto> 4, 2000 \<mapsto> 6, 4000 \<mapsto> 4, 8000 \<mapsto> 0]\<rparr>"

section \<open>Properties\<close>

subsection \<open>The string helpers\<close>

lemma startsWith_iff: "startsWith s pat \<longleftrightarrow> (\<exists>b. s = pat @ b)"
  by (induction s pat rule: startsWith.induct) auto

lemma str_includes_iff: "str_includes s pat \<longleftrightarrow> (\<exists>a b. s = a @ pat @ b)"
proof (induction s)
  case Nil
  then show ?case by auto
next
  case (Cons c cs)
  show ?case
  proof
    assume "str_includes (c # cs) pat"
    then consider "startsWith (c # cs) pat" | "str_includes cs pat"
      by auto
    then show "\<exists>a b. c # cs = a @ pat @ b"
    proof cases
      case 1
      then obtain b where "c # cs = [] @ pat @ b"
        by (auto simp: startsWith_iff)
      then show ?thesis by blast
    next
      case 2
      then obtain a b where "cs = a @ pat @ b"
        using Cons.IH by auto
      then have "c # cs = (c # a) @ pat @ b"
        by simp
      then show ?thesis by blast
    qed
  next
    assume "\<exists>a b. c # cs = a @ pat @ b"
    then obtain a b where ab: "c # cs = a @ pat @ b"
      by auto
    show "str_includes (c # cs) pat"
    proof (cases a)
      case Nil
      then have "startsWith (c # cs) pat"
        using ab by (auto simp: startsWith_iff)
      then show ?thesis by simp
    next
      case (Cons x xs)
      then have "cs = xs @ pat @ b"
        using ab by simp
      then have "str_includes cs pat"
        using Cons.IH by auto
      then show ?thesis by simp
    qed
  qed
qed

subsection \<open>The settings loop over the EQ bank\<close>

lemma forEachEq_nth:
  "k < length fs \<Longrightarrow> forEachEq s p i fs ! k = applyEqFilter s p (fs ! k) (i + k)"
  by (induction fs arbitrary: i k) (auto simp: nth_Cons split: nat.splits)

lemma applyEqFilter_frequency: "bq_frequency (applyEqFilter s p f i) = bq_frequency f"
  by (simp add: applyEqFilter_def Let_def)

lemma forEachEq_frequencies:
  "map (\<lambda>f. pvalue (bq_frequency f)) (forEachEq s p i fs) =
   map (\<lambda>f. pvalue (bq_frequency f)) fs"
  by (induction fs arbitrary: i) (auto simp: applyEqFilter_frequency)

lemma applySettings_context: "audioContext (applySettings s) = audioContext s"
  by (simp add: applySettings_def Let_def)

lemma applySettings_frame:
  "currentProfile (applySettings s) = currentProfile s"
  "currentMode (applySettings s) = currentMode s"
  "isBypassed (applySettings s) = isBypassed s"
  "isRunning_flag (applySettings s) = isRunning_flag s"
  "analyser (applySettings s) = analyser s"
  by (simp_all add: applySettings_def Let_def)

lemma applySettings_applied:
  assumes "audioContext s \<noteq> None" and "currentProfile s \<noteq> None"
  shows "applySettings s =
     s\<lparr>highpassFilter :=
         map_option (applyHighpass s (ENV_PRESETS (currentMode s))) (highpassFilter s),
       eqFilters := forEachEq s (ENV_PRESETS (currentMode s)) 0 (eqFilters s),
       compressor :=
         map_option (applyCompressor s (ENV_PRESETS (currentMode s))) (compressor s),
       gainNode := map_option (applyGain s (ENV_PRESETS (currentMode s))) (gainNode s)\<rparr>"
  using assms by (auto simp: applySettings_def Let_def)

lemma forEachEq_bypass:
  "isBypassed s \<Longrightarrow>
   map (\<lambda>f. ptarget (bq_gain f)) (forEachEq s p i fs) = replicate (length fs) (Some 0)"
  by (induction fs arbitrary: i) (auto simp: applyEqFilter_def setTargetAtTime_def)

lemma lower_speech: "toLowerCase ''Speech Focus Profile'' = ''speech focus profile''"
  by code_simp

subsection \<open>What the methods leave alone\<close>

lemma attachMicrophone_frame:
  "currentProfile (snd (attachMicrophone pf s)) = currentProfile s"
  "currentMode (snd (attachMicrophone pf s)) = currentMode s"
  "isBypassed (snd (attachMicrophone pf s)) = isBypassed s"
  "isRunning_flag (snd (attachMicrophone pf s)) = isRunning_flag s"
  "stages (snd (attachMicrophone pf s)) = stages s"
  "analyser (snd (attachMicrophone pf s)) = analyser s"
  by (auto simp: attachMicrophone_def Let_def stages_def
      split: MicResult.splits option.splits)

lemma attachMicrophone_granted:
  "getUserMedia pf = Granted \<Longrightarrow> fst (attachMicrophone pf s) = None"
  by (auto simp: attachMicrophone_def Let_def split: option.splits)

lemma connectStaticChain_frame:
  "currentProfile (connectStaticChain s) = currentProfile s"
  "currentMode (connectStaticChain s) = currentMode s"
  "isBypassed (connectStaticChain s) = isBypassed s"
  by (auto simp: connectStaticChain_def Let_def split: prod.splits)

lemma initialize_frame:
  "currentProfile (snd (initialize pf s)) = currentProfile s"
  "currentMode (snd (initialize pf s)) = currentMode s"
  "isBypassed (snd (initialize pf s)) = isBypassed s"
proof -
  let ?t = "attachMicrophone pf (connectStaticChain (buildGraph pf s))"
  have "currentProfile (snd ?t) = currentProfile s" "currentMode (snd ?t) = currentMode s"
    "isBypassed (snd ?t) = isBypassed s"
    by (simp_all add: attachMicrophone_frame connectStaticChain_frame buildGraph_def)
  then show "currentProfile (snd (initialize pf s)) = currentProfile s"
    "currentMode (snd (initialize pf s)) = currentMode s"
    "isBypassed (snd (initialize pf s)) = isBypassed s"
    by (auto simp: initialize_def split: option.splits prod.splits)
qed

lemma initialize_granted: "getUserMedia pf = Granted \<Longrightarrow> fst (initialize pf s) = None"
  using attachMicrophone_granted [of pf "connectStaticChain (buildGraph pf s)"]
  by (auto simp: initialize_def split: option.splits prod.splits)

lemma initialize_with_context: "audioContext s \<noteq> None \<Longrightarrow> fst (initialize pf s) = None"
  by (auto simp: initialize_def split: option.splits prod.splits)

lemma start_fst: "fst (start pf s) = fst (initialize pf s)"
  by (auto simp: start_def split: option.splits prod.splits)

lemma start_frame:
  "currentProfile (snd (start pf s)) = currentProfile s"
  "currentMode (snd (start pf s)) = currentMode s"
  using initialize_frame(1,2) [of pf s]
  by (auto simp: start_def applySettings_frame split: option.splits prod.splits)

lemma start_bypass: "fst (start pf s) = None \<Longrightarrow> \<not> isBypassed (snd (start pf s))"
  by (auto simp: start_def applySettings_frame split: option.splits prod.splits)

lemma setProfile_frame:
  "audioContext (setProfile p s) = audioContext s"
  "currentProfile (setProfile p s) = Some p"
  "currentMode (setProfile p s) = currentMode s"
  "isBypassed (setProfile p s) = isBypassed s"
  "isRunning_flag (setProfile p s) = isRunning_flag s"
  by (simp_all add: setProfile_def applySettings_frame applySettings_context)

lemma setBypass_frame:
  "audioContext (setBypass b s) = audioContext s"
  "currentProfile (setBypass b s) = currentProfile s"
  "currentMode (setBypass b s) = currentMode s"
  "isBypassed (setBypass b s) = b"
  "isRunning_flag (setBypass b s) = isRunning_flag s"
  by (simp_all add: setBypass_def applySettings_frame applySettings_context)

lemma setEnvironment_frame:
  "audioContext (setEnvironment m s) = audioContext s"
  "currentProfile (setEnvironment m s) = currentProfile s"
  "currentMode (setEnvironment m s) = m"
  "isBypassed (setEnvironment m s) = isBypassed s"
  "isRunning_flag (setEnvironment m s) = isRunning_flag s"
  by (simp_all add: setEnvironment_def applySettings_frame applySettings_context)

subsection \<open>A context implies a built graph\<close>

lemma applySettings_graphBuilt: "graphBuilt (applySettings s) = graphBuilt s"
  by (auto simp: applySettings_def graphBuilt_def Let_def forEachEq_frequencies)

lemma applySettings_graphInv: "graphInv s \<Longrightarrow> graphInv (applySettings s)"
  by (simp add: graphInv_def applySettings_context applySettings_graphBuilt)

lemma attachMicrophone_context: "audioContext (snd (attachMicrophone pf s)) = audioContext s"
  by (auto simp: attachMicrophone_def Let_def split: MicResult.splits option.splits)

lemma attachMicrophone_graphBuilt: "graphBuilt (snd (attachMicrophone pf s)) = graphBuilt s"
  by (auto simp: attachMicrophone_def graphBuilt_def Let_def
      split: MicResult.splits option.splits)

lemma connectStaticChain_graphBuilt: "graphBuilt (connectStaticChain s) = graphBuilt s"
  by (auto simp: connectStaticChain_def graphBuilt_def Let_def split: prod.splits)

lemma connectStaticChain_context: "audioContext (connectStaticChain s) = audioContext s"
  by (auto simp: connectStaticChain_def Let_def split: prod.splits)

lemma buildGraph_graphBuilt: "graphBuilt (buildGraph pf s)"
  by (simp add: buildGraph_def graphBuilt_def newEqFilter_def paramAt_def)

lemma buildGraph_context: "audioContext (buildGraph pf s) \<noteq> None"
  by (simp add: buildGraph_def)

lemma initialize_context: "audioContext (snd (initialize pf s)) \<noteq> None"
proof (cases "audioContext s")
  case None
  have "audioContext (snd (attachMicrophone pf (connectStaticChain (buildGraph pf s)))) \<noteq> None"
    by (simp add: attachMicrophone_context connectStaticChain_context buildGraph_context)
  then show ?thesis
    using None by (auto simp: initialize_def split: prod.splits option.splits)
next
  case (Some c)
  then show ?thesis by (simp add: initialize_def)
qed

lemma initialize_graphInv:
  assumes "graphInv s"
  shows "graphInv (snd (initialize pf s))"
proof (cases "audioContext s")
  case None
  have "graphBuilt (snd (attachMicrophone pf (connectStaticChain (buildGraph pf s))))"
    by (simp add: attachMicrophone_graphBuilt connectStaticChain_graphBuilt
        buildGraph_graphBuilt)
  then have "graphBuilt (snd (initialize pf s))"
    using None
    by (auto simp: initialize_def graphBuilt_def split: prod.splits option.splits)
  then show ?thesis by (simp add: graphInv_def)
next
  case (Some c)
  then show ?thesis
    using assms by (auto simp: initialize_def graphInv_def graphBuilt_def)
qed

lemma start_graphInv:
  assumes "graphInv s"
  shows "graphInv (snd (start pf s))"
proof (cases "initialize pf s")
  case (Pair e s1)
  have g: "graphInv s1"
    using initialize_graphInv [OF assms, of pf] Pair by simp
  show ?thesis
  proof (cases e)
    case None
    have "graphInv (s1\<lparr>isBypassed := False\<rparr>)"
      using g by (simp add: graphInv_def graphBuilt_def)
    then show ?thesis
      using Pair None by (simp add: start_def applySettings_graphInv)
  next
    case (Some x)
    then show ?thesis using Pair g by (simp add: start_def)
  qed
qed

lemma start_context: "audioContext (snd (start pf s)) \<noteq> None"
  using initialize_context [of pf s]
  by (auto simp: start_def applySettings_context split: option.splits prod.splits)

lemma stopTestAudio_graphInv: "graphInv s \<Longrightarrow> graphInv (snd (stopTestAudio pf s))"
  by (simp add: stopTestAudio_def Let_def graphInv_def attachMicrophone_context
      attachMicrophone_graphBuilt) (simp add: graphBuilt_def)

lemma exec_graphInv:
  assumes "graphInv s"
  shows "graphInv (snd (exec pf op s))"
proof (cases op)
  case Initialize
  then show ?thesis using assms by (simp add: initialize_graphInv)
next
  case Start
  then show ?thesis using assms by (simp add: start_graphInv)
next
  case Suspend
  then show ?thesis
    using assms
    by (auto simp: suspend_def graphInv_def graphBuilt_def Let_def split: option.splits)
next
  case Destroy
  then show ?thesis by (simp add: destroy_def graphInv_def)
next
  case Stop
  then show ?thesis by (simp add: stop_def destroy_def graphInv_def)
next
  case StartTestAudio
  then show ?thesis
    using assms by (auto simp: startTestAudio_def graphInv_def graphBuilt_def Let_def)
next
  case StopTestAudio
  then show ?thesis using assms by (simp add: stopTestAudio_graphInv)
next
  case (SetProfile p)
  have "graphInv (s\<lparr>currentProfile := Some p\<rparr>)"
    using assms by (simp add: graphInv_def graphBuilt_def)
  then show ?thesis using SetProfile by (simp add: setProfile_def applySettings_graphInv)
next
  case (SetEnvironment m)
  have "graphInv (s\<lparr>currentMode := m\<rparr>)"
    using assms by (simp add: graphInv_def graphBuilt_def)
  then show ?thesis
    using SetEnvironment by (simp add: setEnvironment_def applySettings_graphInv)
next
  case (SetBypass b)
  have "graphInv (s\<lparr>isBypassed := b\<rparr>)"
    using assms by (simp add: graphInv_def graphBuilt_def)
  then show ?thesis using SetBypass by (simp add: setBypass_def applySettings_graphInv)
next
  case (SetMasterVolume v)
  then show ?thesis
    using assms
    by (auto simp: setMasterVolume_def graphInv_def graphBuilt_def split: option.splits)
qed

lemma audioRendered_graphInv: "graphInv s \<Longrightarrow> graphInv (audioRendered d s)"
  by (auto simp: audioRendered_def graphInv_def graphBuilt_def split: option.splits)

lemma step_graphInv: "graphInv s \<Longrightarrow> graphInv (step e s)"
  by (cases e) (simp_all add: exec_graphInv audioRendered_graphInv)

lemma run_graphInv: "graphInv s \<Longrightarrow> graphInv (run evs s)"
  by (induction evs arbitrary: s) (simp_all add: step_graphInv)

lemma newEngine_graphInv: "graphInv newEngine"
  by (simp add: graphInv_def newEngine_def)

lemma reachable_graphBuilt:
  "audioContext (run evs newEngine) \<noteq> None \<Longrightarrow> graphBuilt (run evs newEngine)"
  using run_graphInv [OF newEngine_graphInv, of evs] by (auto simp: graphInv_def)

lemma graphBuilt_length: "graphBuilt s \<Longrightarrow> length (eqFilters s) = 5"
  by (auto simp: graphBuilt_def EQ_FREQUENCIES_def dest: arg_cong [where f = length])

subsection \<open>The resolved band gains\<close>

lemma applySettings_band:
  assumes "graphBuilt s" and "audioContext s \<noteq> None" and "currentProfile s = Some P"
    and "\<not> isBypassed s" and "i < length EQ_FREQUENCIES"
  shows "pvalue (bq_frequency (eqFilters (applySettings s) ! i)) = real (EQ_FREQUENCIES ! i) \<and>
         ptarget (bq_gain (eqFilters (applySettings s) ! i)) =
           Some (max (-18) (min 18
             (orZero (eqBands P (EQ_FREQUENCIES ! i))
              + specificBoost (toLowerCase (name P)) (Some (EQ_FREQUENCIES ! i))
              + orZero (eqOffsets (ENV_PRESETS (currentMode s)) (EQ_FREQUENCIES ! i)))))"
proof -
  let ?M = "currentMode s"
  have len: "i < length (eqFilters s)"
    using graphBuilt_length [OF assms(1)] assms(5) by (simp add: EQ_FREQUENCIES_def)
  have eq: "eqFilters (applySettings s) = forEachEq s (ENV_PRESETS ?M) 0 (eqFilters s)"
    using assms(2,3) by (simp add: applySettings_applied)
  have nth: "eqFilters (applySettings s) ! i =
      applyEqFilter s (ENV_PRESETS ?M) (eqFilters s ! i) i"
    using len by (simp add: eq forEachEq_nth)
  have "map (\<lambda>f. pvalue (bq_frequency f)) (eqFilters s) ! i = map real EQ_FREQUENCIES ! i"
    using assms(1) by (simp add: graphBuilt_def)
  then have fr: "pvalue (bq_frequency (eqFilters s ! i)) = real (EQ_FREQUENCIES ! i)"
    using len assms(5) by simp
  have at: "at_index EQ_FREQUENCIES i = Some (EQ_FREQUENCIES ! i)"
    using assms(5) by (simp add: at_index_def)
  show ?thesis
    using assms(3,4) fr
    by (simp add: nth applyEqFilter_def at Let_def lookup_def setTargetAtTime_def)
qed



subsection \<open>Bypass\<close>

text \<open>
  Claim C2. Let the engine have reached a state with a context and a profile set,
  whatever the profile and the mode. Applying the settings with bypass on sets the gain
  target of all five EQ filters to 0, the high-pass frequency target to 1 Hz, the
  compressor targets to threshold -60 and ratio 1, and the master gain target to 0.
\<close>

theorem applySettings_bypass:
  assumes "s = run evs newEngine" and "audioContext s \<noteq> None"
    and "currentProfile s = Some P" and "isBypassed s"
  shows "map (\<lambda>f. ptarget (bq_gain f)) (eqFilters (applySettings s)) = replicate 5 (Some 0) \<and>
         map_option (\<lambda>h. ptarget (bq_frequency h)) (highpassFilter (applySettings s))
           = Some (Some 1) \<and>
         map_option (\<lambda>c. (ptarget (threshold c), ptarget (ratio c)))
           (compressor (applySettings s)) = Some (Some (-60), Some 1) \<and>
         map_option (\<lambda>g. ptarget (gn_gain g)) (gainNode (applySettings s)) = Some (Some 0)"
proof -
  have gb: "graphBuilt s"
    using assms(1,2) reachable_graphBuilt by simp
  obtain g h c where n: "gainNode s = Some g" "highpassFilter s = Some h"
    "compressor s = Some c"
    using gb by (auto simp: graphBuilt_def)
  show ?thesis
    using assms(2,3,4) n graphBuilt_length [OF gb]
    by (simp add: applySettings_applied forEachEq_bypass applyHighpass_def
        applyCompressor_def applyGain_def setTargetAtTime_def)
qed

theorem applySettings_bypass_witness:
  "audioContext (run [Call okPlatform Start, Call okPlatform (SetProfile speechFocusProfile),
       Call okPlatform (SetEnvironment NOISY), Call okPlatform Suspend] newEngine) \<noteq> None \<and>
   currentProfile (run [Call okPlatform Start,
       Call okPlatform (SetProfile speechFocusProfile),
       Call okPlatform (SetEnvironment NOISY), Call okPlatform Suspend] newEngine)
     = Some speechFocusProfile \<and>
   isBypassed (run [Call okPlatform Start, Call okPlatform (SetProfile speechFocusProfile),
       Call okPlatform (SetEnvironment NOISY), Call okPlatform Suspend] newEngine) \<and>
   map_option (\<lambda>g. ptarget (gn_gain g))
     (gainNode (applySettings (run [Call okPlatform Start,
       Call okPlatform (SetProfile speechFocusProfile),
       Call okPlatform (SetEnvironment NOISY), Call okPlatform Suspend] newEngine)))
     = Some (Some 0)"
proof -
  let ?s = "run [Call okPlatform Start, Call okPlatform (SetProfile speechFocusProfile),
       Call okPlatform (SetEnvironment NOISY), Call okPlatform Suspend] newEngine"
  have h: "audioContext ?s \<noteq> None" "currentProfile ?s = Some speechFocusProfile"
    "isBypassed ?s"
    using start_context [of okPlatform newEngine]
    by (auto simp: suspend_def Let_def setEnvironment_frame setProfile_frame start_frame
        split: option.splits)
  show ?thesis
    using h applySettings_bypass [OF refl h] by simp
qed

subsection \<open>No profile\<close>

text \<open>
  Claim C3. While no profile is set, applying the settings changes nothing and raises
  nothing: \<^verbatim>\<open>_applySettings\<close> returns the state as it is, \<^verbatim>\<open>setEnvironment\<close> and
  \<^verbatim>\<open>setBypass\<close> only store the mode and the flag, and \<^verbatim>\<open>start\<close> adds nothing to the
  stage parameters and the outcome of \<^verbatim>\<open>initialize\<close>; on an engine that holds a
  context \<^verbatim>\<open>start\<close> returns normally with the stage parameters as they were.
\<close>

theorem applySettings_without_profile:
  assumes "currentProfile s = None"
  shows "applySettings s = s \<and>
         setEnvironment m s = s\<lparr>currentMode := m\<rparr> \<and>
         setBypass b s = s\<lparr>isBypassed := b\<rparr> \<and>
         fst (start pf s) = fst (initialize pf s) \<and>
         stages (snd (start pf s)) = stages (snd (initialize pf s)) \<and>
         (audioContext s \<noteq> None \<longrightarrow>
            fst (start pf s) = None \<and> stages (snd (start pf s)) = stages s)"
proof -
  have a: "\<And>t. currentProfile t = None \<Longrightarrow> applySettings t = t"
    by (simp add: applySettings_def)
  have i: "currentProfile ((snd (initialize pf s))\<lparr>isBypassed := False\<rparr>) = None"
    using assms by (simp add: initialize_frame)
  have st: "stages (snd (start pf s)) = stages (snd (initialize pf s))"
    using a [OF i] by (auto simp: start_def stages_def split: option.splits prod.splits)
  have c: "audioContext s \<noteq> None \<Longrightarrow> stages (snd (initialize pf s)) = stages s"
    by (auto simp: initialize_def stages_def)
  show ?thesis
    using assms st c
    by (simp add: a setEnvironment_def setBypass_def start_fst initialize_with_context)
qed

theorem applySettings_without_profile_witness:
  "currentProfile (run [Call okPlatform Start] newEngine) = None \<and>
   audioContext (run [Call okPlatform Start] newEngine) \<noteq> None \<and>
   applySettings (run [Call okPlatform Start] newEngine)
     = run [Call okPlatform Start] newEngine \<and>
   fst (start okPlatform (run [Call okPlatform Start] newEngine)) = None \<and>
   stages (snd (start okPlatform (run [Call okPlatform Start] newEngine)))
     = stages (run [Call okPlatform Start] newEngine)"
proof -
  let ?s = "run [Call okPlatform Start] newEngine"
  have h: "currentProfile ?s = None"
    by (simp add: start_frame newEngine_def)
  have c: "audioContext ?s \<noteq> None"
    by (simp add: start_context)
  show ?thesis
    using h c applySettings_without_profile [OF h, of QUIET False okPlatform] by blast
qed

subsection \<open>Master volume\<close>

text \<open>
  Claim C9. In every state an engine can reach and in which it holds a context,
  \<^verbatim>\<open>setMasterVolume(v)\<close> sets the target of the master gain to \<open>v\<close> clamped to
  \<open>[0, 4]\<close>: 0 for \<open>v\<close> below 0, 4 for \<open>v\<close> above 4, and \<open>v\<close> itself in between.
\<close>

theorem setMasterVolume_clamped:
  assumes "s = run evs newEngine" and "audioContext s \<noteq> None"
  shows "map_option (\<lambda>g. ptarget (gn_gain g)) (gainNode (setMasterVolume v s)) =
           Some (Some (if v < 0 then 0 else if 4 < v then 4 else v))"
proof -
  have "graphBuilt s"
    using assms reachable_graphBuilt by simp
  then obtain g where "gainNode s = Some g"
    by (auto simp: graphBuilt_def)
  then show ?thesis
    using assms(2) by (auto simp: setMasterVolume_def setTargetAtTime_def)
qed

theorem setMasterVolume_clamped_witness:
  "audioContext (run [Call okPlatform Start] newEngine) \<noteq> None \<and>
   map_option (\<lambda>g. ptarget (gn_gain g))
     (gainNode (setMasterVolume 7 (run [Call okPlatform Start] newEngine))) = Some (Some 4)"
proof -
  have c: "audioContext (run [Call okPlatform Start] newEngine) \<noteq> None"
    by (simp add: start_context)
  show ?thesis
    using c setMasterVolume_clamped [OF refl c, of 7] by simp
qed

subsection \<open>Lifecycle: after destroy\<close>

lemma noContext_not_running: "audioContext s = None \<Longrightarrow> \<not> isRunning s"
  by (simp add: isRunning_def)

lemma exec_noContext:
  assumes "audioContext s = None" and "op \<noteq> Initialize" and "op \<noteq> Start"
  shows "audioContext (snd (exec pf op s)) = None"
  using assms
  by (cases op)
    (simp_all add: suspend_def destroy_def stop_def startTestAudio_def stopTestAudio_def
      Let_def attachMicrophone_context setProfile_frame setEnvironment_frame setBypass_frame
      setMasterVolume_def split: option.splits)

lemma step_noContext:
  assumes "audioContext s = None" and "\<not> isStart e"
  shows "audioContext (step e s) = None"
proof (cases e)
  case (Call pf op)
  then have "op \<noteq> Initialize" "op \<noteq> Start"
    using assms(2) by auto
  then show ?thesis
    using Call assms(1) by (simp add: exec_noContext)
next
  case (AudioRendered d)
  then show ?thesis
    using assms(1) by (simp add: audioRendered_def)
qed

lemma run_noContext:
  "audioContext s = None \<Longrightarrow> \<forall>e\<in>set evs. \<not> isStart e \<Longrightarrow> audioContext (run evs s) = None"
  by (induction evs arbitrary: s) (simp_all add: step_noContext)

lemma start_fresh_running:
  assumes "audioContext s = None" and "getUserMedia pf = Granted"
    and "newContextState pf = running"
  shows "isRunning (snd (start pf s))"
proof -
  let ?t = "attachMicrophone pf (connectStaticChain (buildGraph pf s))"
  have c: "audioContext (snd ?t) = Some \<lparr>state = running, sampleRate = 44100\<rparr>"
    using assms(3)
    by (simp add: attachMicrophone_context connectStaticChain_context buildGraph_def)
  have f: "fst ?t = None"
    using assms(2) by (rule attachMicrophone_granted)
  obtain t where t: "?t = (None, t)"
    using f by (cases ?t) auto
  have i: "initialize pf s = (None, t\<lparr>isRunning_flag := True\<rparr>)"
    using assms(1) t by (simp add: initialize_def)
  have "audioContext t = Some \<lparr>state = running, sampleRate = 44100\<rparr>"
    using c t by simp
  then show ?thesis
    by (simp add: start_def i isRunning_def applySettings_context applySettings_frame)
qed

lemma destroy_context: "audioContext (destroy s) = None"
  by (simp add: destroy_def)

text \<open>
  Claim C4, as stated, fails: an engine that was started and destroyed is running
  again after the next \<^verbatim>\<open>start()\<close>, which finds no context and builds a new one.
\<close>

theorem destroyed_engine_restarts_counterexample:
  "isRunning (run [Call okPlatform Start, Call okPlatform Destroy, Call okPlatform Start]
     newEngine)"
  by (simp add: start_fresh_running destroy_context okPlatform_def)

text \<open>
  Claim C4, amended. After \<^verbatim>\<open>destroy()\<close> the engine does not run, and no sequence of
  events without \<^verbatim>\<open>start()\<close> or \<^verbatim>\<open>initialize()\<close> makes it run; a \<^verbatim>\<open>start()\<close> on the
  same instance, with the microphone granted and the new context running, brings it back
  to running.
\<close>

theorem destroyed_until_start:
  "\<not> isRunning (destroy s) \<and>
   ((\<forall>e\<in>set evs. \<not> isStart e) \<longrightarrow> \<not> isRunning (run evs (destroy s))) \<and>
   (getUserMedia pf = Granted \<and> newContextState pf = running \<longrightarrow>
      isRunning (snd (start pf (destroy s))))"
  by (simp add: noContext_not_running run_noContext destroy_context start_fresh_running)

theorem destroyed_until_start_witness:
  "\<not> isRunning (destroy (run [Call okPlatform Start] newEngine)) \<and>
   filter isStart [Call okPlatform Suspend, Call okPlatform (SetBypass False),
      Call okPlatform StartTestAudio, Call okPlatform StopTestAudio, AudioRendered [7]]
     = [] \<and>
   \<not> isRunning (run [Call okPlatform Suspend, Call okPlatform (SetBypass False),
      Call okPlatform StartTestAudio, Call okPlatform StopTestAudio, AudioRendered [7]]
      (destroy (run [Call okPlatform Start] newEngine))) \<and>
   getUserMedia okPlatform = Granted \<and> newContextState okPlatform = running \<and>
   isRunning (snd (start okPlatform (destroy (run [Call okPlatform Start] newEngine))))"
proof -
  have n: "\<forall>e\<in>set [Call okPlatform Suspend, Call okPlatform (SetBypass False),
      Call okPlatform StartTestAudio, Call okPlatform StopTestAudio, AudioRendered [7]].
      \<not> isStart e"
    by simp
  have p: "getUserMedia okPlatform = Granted \<and> newContextState okPlatform = running"
    by (simp add: okPlatform_def)
  have f: "filter isStart [Call okPlatform Suspend, Call okPlatform (SetBypass False),
      Call okPlatform StartTestAudio, Call okPlatform StopTestAudio, AudioRendered [7]] = []"
    by simp
  show ?thesis
    using n p f destroyed_until_start [of "run [Call okPlatform Start] newEngine"
        "[Call okPlatform Suspend, Call okPlatform (SetBypass False),
          Call okPlatform StartTestAudio, Call okPlatform StopTestAudio, AudioRendered [7]]"
        okPlatform]
    by blast
qed

subsection \<open>Applying the settings twice\<close>

lemma setTargetAtTime_twice: "setTargetAtTime t (setTargetAtTime u p) = setTargetAtTime t p"
  by (simp add: setTargetAtTime_def)

lemma applyEqFilter_cong:
  assumes "isBypassed t = isBypassed s" and "currentProfile t = currentProfile s"
  shows "applyEqFilter t p f i = applyEqFilter s p f i"
  unfolding applyEqFilter_def assms ..

lemma applyEqFilter_shape:
  "\<exists>t. \<forall>f. applyEqFilter s p f i = f\<lparr>bq_gain := setTargetAtTime t (bq_gain f)\<rparr>"
proof (cases "isBypassed s")
  case True
  have "\<forall>f. applyEqFilter s p f i = f\<lparr>bq_gain := setTargetAtTime 0 (bq_gain f)\<rparr>"
    unfolding applyEqFilter_def Let_def using True by (simp only: if_True) simp
  then show ?thesis ..
next
  case False
  show ?thesis
    unfolding applyEqFilter_def Let_def using False by (simp only: if_False) blast
qed

lemma applyEqFilter_idem:
  "applyEqFilter s p (applyEqFilter s p f i) i = applyEqFilter s p f i"
proof -
  obtain t where t: "\<And>g. applyEqFilter s p g i = g\<lparr>bq_gain := setTargetAtTime t (bq_gain g)\<rparr>"
    using applyEqFilter_shape [of s p i] by blast
  show ?thesis
    by (simp add: t setTargetAtTime_twice)
qed

lemma forEachEq_idem: "forEachEq s p i (forEachEq s p i fs) = forEachEq s p i fs"
  by (induction fs arbitrary: i) (simp_all add: applyEqFilter_idem)

lemma forEachEq_cong:
  assumes "isBypassed t = isBypassed s" and "currentProfile t = currentProfile s"
  shows "forEachEq t p i fs = forEachEq s p i fs"
  by (induction fs arbitrary: i) (simp_all add: applyEqFilter_cong [OF assms])

lemma applySettings_idem: "applySettings (applySettings s) = applySettings s"
proof (cases "audioContext s = None \<or> currentProfile s = None")
  case True
  then show ?thesis by (auto simp: applySettings_def)
next
  case False
  then obtain c P where c: "audioContext s = Some c" "currentProfile s = Some P"
    by auto
  define p where "p = ENV_PRESETS (currentMode s)"
  define H where "H = map_option (applyHighpass s p) (highpassFilter s)"
  define E where "E = forEachEq s p 0 (eqFilters s)"
  define C where "C = map_option (applyCompressor s p) (compressor s)"
  define G where "G = map_option (applyGain s p) (gainNode s)"
  define u where "u = s\<lparr>highpassFilter := H, eqFilters := E, compressor := C, gainNode := G\<rparr>"
  have su: "applySettings s = u"
    by (simp add: applySettings_def Let_def c u_def H_def E_def C_def G_def p_def)
  have f: "audioContext u = Some c" "currentProfile u = Some P" "currentMode u = currentMode s"
    "isBypassed u = isBypassed s" "highpassFilter u = H" "eqFilters u = E" "compressor u = C"
    "gainNode u = G"
    by (simp_all add: u_def c)
  have pr: "currentProfile u = currentProfile s"
    by (simp add: f c)
  have h: "map_option (applyHighpass u p) H = H"
    by (cases "highpassFilter s") (simp_all add: H_def applyHighpass_def f setTargetAtTime_twice)
  have e: "forEachEq u p 0 E = E"
    by (simp add: E_def forEachEq_cong [OF f(4) pr] forEachEq_idem)
  have k: "map_option (applyCompressor u p) C = C"
    by (cases "compressor s") (simp_all add: C_def applyCompressor_def f setTargetAtTime_twice)
  have g: "map_option (applyGain u p) G = G"
    by (cases "gainNode s") (simp_all add: G_def applyGain_def f setTargetAtTime_twice)
  have "applySettings u =
      u\<lparr>highpassFilter := H, eqFilters := E, compressor := C, gainNode := G\<rparr>"
    by (simp add: applySettings_def Let_def f h e k g p_def [symmetric])
  also have "\<dots> = u"
    by (simp add: u_def)
  finally show ?thesis
    by (simp add: su)
qed

subsection \<open>Lifecycle: suspend and start\<close>

lemma start_with_context:
  assumes "audioContext s = Some c"
  shows "start pf s =
    (None, applySettings
       (s\<lparr>audioContext := Some (if state c = suspended then c\<lparr>state := running\<rparr> else c),
          isRunning_flag := True, isBypassed := False\<rparr>))"
  using assms by (simp add: start_def initialize_def)

lemma resume_context: "state c = running \<Longrightarrow> c\<lparr>state := suspended\<rparr>\<lparr>state := running\<rparr> = c"
  by (cases c) simp

lemma isRunning_frame:
  "isRunning (setProfile p s) = isRunning s"
  "isRunning (setBypass b s) = isRunning s"
  "isRunning (setEnvironment m s) = isRunning s"
  "isRunning (setMasterVolume v s) = isRunning s"
  by (simp_all add: isRunning_def setProfile_frame setBypass_frame setEnvironment_frame
      setMasterVolume_def split: option.splits)

lemma suspend_frame:
  "audioContext (suspend s) = None \<longleftrightarrow> audioContext s = None"
  "currentProfile (suspend s) = currentProfile s"
  "currentMode (suspend s) = currentMode s"
  "isBypassed (suspend s)"
  "stages (suspend s) = stages s"
  "analyser (suspend s) = analyser s"
  "graphBuilt (suspend s) = graphBuilt s"
  "\<not> isRunning (suspend s)"
  by (simp_all add: suspend_def Let_def stages_def graphBuilt_def isRunning_def
      split: option.splits)

lemma graphBuilt_flags:
  "graphBuilt (s\<lparr>isBypassed := b\<rparr>) = graphBuilt s"
  "graphBuilt (s\<lparr>currentProfile := q\<rparr>) = graphBuilt s"
  "graphBuilt (s\<lparr>currentMode := m\<rparr>) = graphBuilt s"
  by (simp_all add: graphBuilt_def)

lemma applySettings_gain:
  assumes "graphBuilt s" and "audioContext s \<noteq> None" and "currentProfile s \<noteq> None"
  shows "masterGainTarget (applySettings s) =
    Some (if isBypassed s then 0 else 1 + gainOffset (ENV_PRESETS (currentMode s)))"
proof -
  obtain g where "gainNode s = Some g"
    using assms(1) by (auto simp: graphBuilt_def)
  then show ?thesis
    by (simp add: applySettings_applied [OF assms(2,3)] masterGainTarget_def applyGain_def
        setTargetAtTime_def)
qed

lemma start_gain:
  assumes "graphBuilt s" and "audioContext s \<noteq> None" and "currentProfile s \<noteq> None"
  shows "masterGainTarget (snd (start pf s)) = Some (1 + gainOffset (ENV_PRESETS (currentMode s)))"
proof -
  obtain c where c: "audioContext s = Some c"
    using assms(2) by auto
  let ?t = "s\<lparr>audioContext := Some (if state c = suspended then c\<lparr>state := running\<rparr> else c),
          isRunning_flag := True, isBypassed := False\<rparr>"
  have t: "graphBuilt ?t" "audioContext ?t \<noteq> None" "currentProfile ?t \<noteq> None"
    using assms by (simp_all add: graphBuilt_def)
  show ?thesis
    using applySettings_gain [OF t] by (simp add: start_with_context [OF c])
qed

lemma setMasterVolume_gain:
  assumes "graphBuilt s" and "audioContext s \<noteq> None"
  shows "masterGainTarget (setMasterVolume v s) = Some (max 0 (min 4 v))"
proof -
  obtain g where "gainNode s = Some g"
    using assms(1) by (auto simp: graphBuilt_def)
  then show ?thesis
    using assms(2) by (auto simp: setMasterVolume_def masterGainTarget_def setTargetAtTime_def)
qed

lemma setMasterVolume_frame:
  "audioContext (setMasterVolume v s) = audioContext s"
  "currentProfile (setMasterVolume v s) = currentProfile s"
  "currentMode (setMasterVolume v s) = currentMode s"
  "isBypassed (setMasterVolume v s) = isBypassed s"
  by (simp_all add: setMasterVolume_def split: option.splits)

lemma started_facts:
  "isRunning (snd (start okPlatform newEngine))"
  "fst (start okPlatform newEngine) = None"
  "\<not> isBypassed (snd (start okPlatform newEngine))"
  "currentProfile (snd (start okPlatform newEngine)) = None"
  "currentMode (snd (start okPlatform newEngine)) = QUIET"
proof -
  show "isRunning (snd (start okPlatform newEngine))"
    by (rule start_fresh_running) (simp_all add: newEngine_def okPlatform_def)
  show ok: "fst (start okPlatform newEngine) = None"
    by (simp add: start_fst initialize_granted okPlatform_def)
  show "\<not> isBypassed (snd (start okPlatform newEngine))"
    by (rule start_bypass [OF ok])
  show "currentProfile (snd (start okPlatform newEngine)) = None"
    "currentMode (snd (start okPlatform newEngine)) = QUIET"
    by (simp_all add: start_frame newEngine_def)
qed

text \<open>Right after a call that applies the settings, applying them again changes nothing.\<close>

lemma settled_after_apply:
  "applySettings (setProfile p s) = setProfile p s"
  "applySettings (setEnvironment m s) = setEnvironment m s"
  "applySettings (setBypass b s) = setBypass b s"
  by (simp_all add: setProfile_def setEnvironment_def setBypass_def applySettings_idem)

lemma settled_after_start:
  "fst (start pf s) = None \<Longrightarrow> applySettings (snd (start pf s)) = snd (start pf s)"
  by (auto simp: start_def applySettings_idem split: prod.splits option.splits)

text \<open>
  Claim C5, as stated, fails. A running engine with a profile, bypassed by the caller,
  has the master gain target 0; after \<^verbatim>\<open>suspend()\<close> and \<^verbatim>\<open>start()\<close>, and also after a
  \<^verbatim>\<open>start()\<close> alone, the target is 1. A running engine whose master volume was set
  to 2 has the target 1 after \<^verbatim>\<open>suspend()\<close> and \<^verbatim>\<open>start()\<close>.
\<close>

theorem suspend_start_drift_counterexample:
  "isRunning (run [Call okPlatform Start, Call okPlatform (SetProfile speechFocusProfile),
      Call okPlatform (SetBypass True)] newEngine) \<and>
   masterGainTarget (run [Call okPlatform Start, Call okPlatform (SetProfile speechFocusProfile),
      Call okPlatform (SetBypass True)] newEngine) = Some 0 \<and>
   masterGainTarget (run [Call okPlatform Start, Call okPlatform (SetProfile speechFocusProfile),
      Call okPlatform (SetBypass True), Call okPlatform Suspend, Call okPlatform Start]
      newEngine) = Some 1 \<and>
   masterGainTarget (run [Call okPlatform Start, Call okPlatform (SetProfile speechFocusProfile),
      Call okPlatform (SetBypass True), Call okPlatform Start] newEngine) = Some 1 \<and>
   isRunning (run [Call okPlatform Start, Call okPlatform (SetProfile speechFocusProfile),
      Call okPlatform (SetMasterVolume 2)] newEngine) \<and>
   masterGainTarget (run [Call okPlatform Start, Call okPlatform (SetProfile speechFocusProfile),
      Call okPlatform (SetMasterVolume 2)] newEngine) = Some 2 \<and>
   masterGainTarget (run [Call okPlatform Start, Call okPlatform (SetProfile speechFocusProfile),
      Call okPlatform (SetMasterVolume 2), Call okPlatform Suspend, Call okPlatform Start]
      newEngine) = Some 1"
proof -
  let ?p = "run [Call okPlatform Start, Call okPlatform (SetProfile speechFocusProfile)] newEngine"
  have p: "graphBuilt ?p" "audioContext ?p \<noteq> None" "currentProfile ?p \<noteq> None"
    "currentMode ?p = QUIET"
    using reachable_graphBuilt [of "[Call okPlatform Start, Call okPlatform (SetProfile speechFocusProfile)]"]
    by (simp_all add: setProfile_frame start_context started_facts)
  let ?b = "setBypass True ?p"
  have b: "graphBuilt ?b" "audioContext ?b \<noteq> None" "currentProfile ?b \<noteq> None"
    "currentMode ?b = QUIET"
    using p
    by (simp_all add: setBypass_frame)
      (simp add: setBypass_def applySettings_graphBuilt graphBuilt_flags)
  have b0: "masterGainTarget ?b = Some 0"
    using applySettings_gain [of "?p\<lparr>isBypassed := True\<rparr>"] p
    by (simp add: setBypass_def graphBuilt_flags)
  have sb: "graphBuilt (suspend ?b)" "audioContext (suspend ?b) \<noteq> None"
    "currentProfile (suspend ?b) \<noteq> None"
    using b by (simp_all add: suspend_frame)
  have b1: "masterGainTarget (snd (start okPlatform (suspend ?b))) = Some 1"
    using start_gain [OF sb, of okPlatform] b(4) by (simp add: suspend_frame)
  have b2: "masterGainTarget (snd (start okPlatform ?b)) = Some 1"
    using start_gain [OF b(1-3), of okPlatform] b(4) by simp
  let ?v = "setMasterVolume 2 ?p"
  have v: "graphBuilt ?v" "audioContext ?v \<noteq> None" "currentProfile ?v \<noteq> None"
    "currentMode ?v = QUIET"
    using p reachable_graphBuilt [of "[Call okPlatform Start, Call okPlatform (SetProfile speechFocusProfile),
      Call okPlatform (SetMasterVolume 2)]"]
    by (simp_all add: setMasterVolume_frame)
  have v0: "masterGainTarget ?v = Some 2"
    using setMasterVolume_gain [OF p(1,2), of 2] by simp
  have sv: "graphBuilt (suspend ?v)" "audioContext (suspend ?v) \<noteq> None"
    "currentProfile (suspend ?v) \<noteq> None"
    using v by (simp_all add: suspend_frame)
  have v1: "masterGainTarget (snd (start okPlatform (suspend ?v))) = Some 1"
    using start_gain [OF sv, of okPlatform] v(4) by (simp add: suspend_frame)
  have r: "isRunning ?b" "isRunning ?v"
    by (simp_all add: isRunning_frame started_facts)
  show ?thesis
    using b0 b1 b2 v0 v1 r by simp
qed

text \<open>
  Claim C5, amended. In a running state with bypass off whose stage targets are those
  that applying the settings yields (\<open>applySettings s = s\<close>: no profile set, or nothing
  changed since the settings were last applied), \<^verbatim>\<open>suspend()\<close> followed by \<^verbatim>\<open>start()\<close>
  returns the engine to the very same state, and \<^verbatim>\<open>start()\<close> alone leaves the state
  unchanged; both return normally.
\<close>

theorem suspend_start_restores:
  assumes "isRunning s" and "\<not> isBypassed s" and "applySettings s = s"
  shows "start pf (suspend s) = (None, s) \<and> start pf s = (None, s)"
proof -
  obtain c where c: "audioContext s = Some c" "state c = running" and f: "isRunning_flag s"
    using assms(1) by (auto simp: isRunning_def split: option.splits)
  have r: "s\<lparr>audioContext := Some c, isRunning_flag := True, isBypassed := False\<rparr> = s"
    using c(1) f assms(2) by simp
  have 1: "start pf s = (None, s)"
    using c assms(3) r by (simp add: start_with_context [OF c(1)])
  have su: "suspend s =
      s\<lparr>audioContext := Some (c\<lparr>state := suspended\<rparr>), isRunning_flag := False,
        isBypassed := True\<rparr>"
    using c by (simp add: suspend_def)
  have "start pf (suspend s) = (None, applySettings
      (s\<lparr>audioContext := Some c, isRunning_flag := True, isBypassed := False\<rparr>))"
    using c(2) by (simp add: su start_with_context [of _ "c\<lparr>state := suspended\<rparr>"] resume_context)
  then have 2: "start pf (suspend s) = (None, s)"
    using r assms(3) by simp
  show ?thesis using 1 2 by simp
qed



theorem suspend_start_restores_witness:
  "isRunning (run [Call okPlatform Start, Call okPlatform (SetProfile speechFocusProfile)]
     newEngine) \<and>
   \<not> isBypassed (run [Call okPlatform Start, Call okPlatform (SetProfile speechFocusProfile)]
     newEngine) \<and>
   applySettings (run [Call okPlatform Start, Call okPlatform (SetProfile speechFocusProfile)]
     newEngine)
     = run [Call okPlatform Start, Call okPlatform (SetProfile speechFocusProfile)] newEngine \<and>
   run [Call okPlatform Start, Call okPlatform (SetProfile speechFocusProfile),
        Call okPlatform Suspend, Call okPlatform Start] newEngine
     = run [Call okPlatform Start, Call okPlatform (SetProfile speechFocusProfile)] newEngine \<and>
   run [Call okPlatform Start, Call okPlatform (SetProfile speechFocusProfile),
        Call okPlatform Start] newEngine
     = run [Call okPlatform Start, Call okPlatform (SetProfile speechFocusProfile)] newEngine"
proof -
  let ?s = "run [Call okPlatform Start, Call okPlatform (SetProfile speechFocusProfile)]
    newEngine"
  have h: "isRunning ?s" "\<not> isBypassed ?s" "applySettings ?s = ?s"
    by (simp_all add: isRunning_frame setProfile_frame started_facts)
      (simp add: setProfile_def applySettings_idem)
  show ?thesis
    using h suspend_start_restores [OF h, of okPlatform] by simp
qed

subsection \<open>The bypass flag across start and suspend\<close>

lemma start_raised_bypass:
  "fst (start pf s) \<noteq> None \<Longrightarrow> isBypassed (snd (start pf s)) = isBypassed s"
  using initialize_frame(3) [of pf s]
  by (auto simp: start_def split: prod.splits option.splits)

lemma connectStaticChain_sources:
  "stream (connectStaticChain s) = stream s"
  "testSource (connectStaticChain s) = testSource s"
  by (auto simp: connectStaticChain_def Let_def split: prod.splits)

lemma attachMicrophone_refused:
  assumes "audioContext s \<noteq> None" and "stream s = None"
    and "getUserMedia pf = NotAllowedError"
  shows "fst (attachMicrophone pf s) = Some MicPermissionDenied"
  using assms by (auto simp: attachMicrophone_def Let_def)

lemma start_refused:
  assumes "audioContext s = None" and "stream s = None"
    and "getUserMedia pf = NotAllowedError"
  shows "fst (start pf s) = Some MicPermissionDenied"
proof -
  let ?g = "connectStaticChain (buildGraph pf s)"
  have "audioContext ?g \<noteq> None" "stream ?g = None"
    using assms(2) by (simp_all add: connectStaticChain_context connectStaticChain_sources
        buildGraph_def)
  then have "fst (attachMicrophone pf ?g) = Some MicPermissionDenied"
    using assms(3) by (rule attachMicrophone_refused)
  then have "fst (initialize pf s) = Some MicPermissionDenied"
    using assms(1) by (auto simp: initialize_def split: prod.splits option.splits)
  then show ?thesis
    by (simp add: start_fst)
qed

lemma destroy_frame:
  "stream (destroy s) = None"
  "isBypassed (destroy s) = isBypassed s"
  by (simp_all add: destroy_def)

text \<open>
  Claim C10, as stated, fails: \<^verbatim>\<open>start()\<close> does not clear the bypass flag from every
  prior state. On a new engine with bypass switched on, and on an engine that was
  started, suspended and destroyed, a \<^verbatim>\<open>start()\<close> for which the user refuses the
  microphone raises the permission error and leaves the flag true.
\<close>

theorem refused_start_keeps_bypass_counterexample:
  "fst (start deniedPlatform (run [Call okPlatform (SetBypass True)] newEngine))
     = Some MicPermissionDenied \<and>
   isBypassed (run [Call okPlatform (SetBypass True), Call deniedPlatform Start] newEngine) \<and>
   fst (start deniedPlatform (run [Call okPlatform Start, Call okPlatform Suspend,
       Call okPlatform Destroy] newEngine)) = Some MicPermissionDenied \<and>
   isBypassed (run [Call okPlatform Start, Call okPlatform Suspend, Call okPlatform Destroy,
       Call deniedPlatform Start] newEngine)"
proof -
  let ?a = "setBypass True newEngine"
  have a: "audioContext ?a = None" "stream ?a = None" "isBypassed ?a"
    by (simp_all add: setBypass_frame) (simp_all add: setBypass_def applySettings_def newEngine_def)
  have fa: "fst (start deniedPlatform ?a) = Some MicPermissionDenied"
    by (rule start_refused [OF a(1,2)]) (simp add: deniedPlatform_def)
  have ba: "isBypassed (snd (start deniedPlatform ?a))"
    using fa a(3) by (simp add: start_raised_bypass)
  let ?d = "destroy (suspend (snd (start okPlatform newEngine)))"
  have d: "audioContext ?d = None" "stream ?d = None" "isBypassed ?d"
    by (simp_all add: destroy_context destroy_frame suspend_frame)
  have fd: "fst (start deniedPlatform ?d) = Some MicPermissionDenied"
    by (rule start_refused [OF d(1,2)]) (simp add: deniedPlatform_def)
  have bd: "isBypassed (snd (start deniedPlatform ?d))"
    using fd d(3) by (simp add: start_raised_bypass)
  show ?thesis
    using fa ba fd bd by simp
qed

text \<open>
  Claim C10, amended. A \<^verbatim>\<open>start()\<close> that returns leaves the bypass flag false; a
  \<^verbatim>\<open>start()\<close> that raises leaves the flag as it was. \<^verbatim>\<open>suspend()\<close> leaves the flag
  true from every state. On an engine that holds a context \<^verbatim>\<open>start()\<close> always returns,
  also after \<^verbatim>\<open>suspend()\<close>, and then the flag is false: a bypass switched on before the
  suspension is lost.
\<close>

theorem start_clears_bypass:
  "(fst (start pf s) = None \<longrightarrow> \<not> isBypassed (snd (start pf s))) \<and>
   (fst (start pf s) \<noteq> None \<longrightarrow> isBypassed (snd (start pf s)) = isBypassed s) \<and>
   isBypassed (suspend s) \<and>
   (audioContext s \<noteq> None \<longrightarrow>
      fst (start pf s) = None \<and>
      fst (start pf (suspend s)) = None \<and> \<not> isBypassed (snd (start pf (suspend s))))"
proof -
  have 1: "audioContext s \<noteq> None \<Longrightarrow> fst (start pf (suspend s)) = None"
    by (simp add: start_fst initialize_with_context suspend_frame)
  have 2: "audioContext s \<noteq> None \<Longrightarrow> fst (start pf s) = None"
    by (simp add: start_fst initialize_with_context)
  show ?thesis
    using 1 2 start_raised_bypass [of pf s]
    by (auto simp: suspend_frame dest: start_bypass)
qed

theorem start_clears_bypass_witness:
  "isBypassed (run [Call okPlatform Start, Call okPlatform (SetBypass True)] newEngine) \<and>
   audioContext (run [Call okPlatform Start, Call okPlatform (SetBypass True)] newEngine)
     \<noteq> None \<and>
   fst (start okPlatform
     (run [Call okPlatform Start, Call okPlatform (SetBypass True)] newEngine)) = None \<and>
   \<not> isBypassed (snd (start okPlatform
       (run [Call okPlatform Start, Call okPlatform (SetBypass True)] newEngine))) \<and>
   \<not> isBypassed (run [Call okPlatform Start, Call okPlatform (SetBypass True),
       Call okPlatform Suspend, Call okPlatform Start] newEngine) \<and>
   fst (start deniedPlatform (run [Call okPlatform (SetBypass True)] newEngine))
     = Some MicPermissionDenied \<and>
   isBypassed (snd (start deniedPlatform (run [Call okPlatform (SetBypass True)] newEngine)))
     = isBypassed (run [Call okPlatform (SetBypass True)] newEngine)"
proof -
  let ?s = "run [Call okPlatform Start, Call okPlatform (SetBypass True)] newEngine"
  have c: "audioContext ?s \<noteq> None" "isBypassed ?s"
    by (simp_all add: setBypass_frame start_context)
  have f: "fst (start okPlatform ?s) = None"
    using c(1) by (simp add: start_fst initialize_with_context)
  let ?a = "run [Call okPlatform (SetBypass True)] newEngine"
  have a: "audioContext ?a = None" "stream ?a = None"
    by (simp_all add: setBypass_frame) (simp_all add: setBypass_def applySettings_def newEngine_def)
  have fa: "fst (start deniedPlatform ?a) = Some MicPermissionDenied"
    by (rule start_refused [OF a]) (simp add: deniedPlatform_def)
  show ?thesis
    using c f fa start_clears_bypass [of okPlatform ?s] start_clears_bypass [of deniedPlatform ?a]
    by simp
qed

subsection \<open>Switching the source\<close>

lemma staticEdges_connect:
  "a = MicSourceRef \<or> a = TestSourceRef \<Longrightarrow> staticEdges (connect a b es) = staticEdges es"
  by (auto simp: staticEdges_def connect_def)

lemma staticEdges_disconnect:
  "a = MicSourceRef \<or> a = TestSourceRef \<Longrightarrow> staticEdges (disconnect a es) = staticEdges es"
  by (auto simp: staticEdges_def disconnect_def intro: filter_cong)

lemma attachMicrophone_behindSource:
  "behindSource (snd (attachMicrophone pf s)) = behindSource s"
  by (auto simp: attachMicrophone_def Let_def behindSource_def stages_def
      staticEdges_connect staticEdges_disconnect split: MicResult.splits option.splits)

lemma startTestAudio_behindSource: "behindSource (startTestAudio s) = behindSource s"
  by (auto simp: startTestAudio_def Let_def behindSource_def stages_def
      staticEdges_connect staticEdges_disconnect)

lemma stopTestAudio_behindSource: "behindSource (snd (stopTestAudio pf s)) = behindSource s"
  by (simp add: stopTestAudio_def Let_def attachMicrophone_behindSource)
    (simp add: behindSource_def stages_def staticEdges_disconnect)

text \<open>
  Claim C6. \<^verbatim>\<open>startTestAudio()\<close>, and \<^verbatim>\<open>startTestAudio()\<close> followed by
  \<^verbatim>\<open>stopTestAudio()\<close> (whether or not the microphone comes back), leave everything behind
  the source node as it was: the context, the gain, high-pass, EQ and compressor nodes
  with the values and targets of their parameters, the analyser, and the connections of
  the static chain. Only the stream, the source nodes, their connections and the testing
  flag can differ.
\<close>

theorem source_switch_preserves_stages:
  "behindSource (startTestAudio s) = behindSource s \<and>
   behindSource (snd (stopTestAudio pf (startTestAudio s))) = behindSource s \<and>
   stages (snd (stopTestAudio pf (startTestAudio s))) = stages s \<and>
   analyser (snd (stopTestAudio pf (startTestAudio s))) = analyser s"
proof -
  have b: "behindSource (snd (stopTestAudio pf (startTestAudio s))) = behindSource s"
    by (simp add: stopTestAudio_behindSource startTestAudio_behindSource)
  then show ?thesis
    by (simp add: startTestAudio_behindSource) (simp add: behindSource_def)
qed

subsection \<open>The spectrum while the engine does not run\<close>

lemma start_fresh_analyser:
  assumes "audioContext s = None"
  shows "analyser (snd (start pf s)) = Some newAnalyser"
proof -
  let ?t = "attachMicrophone pf (connectStaticChain (buildGraph pf s))"
  have "analyser (connectStaticChain (buildGraph pf s)) = Some newAnalyser"
    by (auto simp: connectStaticChain_def Let_def buildGraph_def split: prod.splits)
  then have a: "analyser (snd ?t) = Some newAnalyser"
    by (simp add: attachMicrophone_frame)
  have "analyser (snd (initialize pf s)) = Some newAnalyser"
    using assms a by (auto simp: initialize_def split: prod.splits option.splits)
  then show ?thesis
    by (auto simp: start_def applySettings_frame split: prod.splits option.splits)
qed

lemma audioRendered_running:
  "isRunning s \<Longrightarrow> analyser s = Some a \<Longrightarrow>
   analyser (audioRendered d s) = Some (a\<lparr>frequencyData := d\<rparr>) \<and> isRunning (audioRendered d s)"
  by (auto simp: audioRendered_def isRunning_def split: option.splits)

lemma destroy_analyser: "analyser (destroy s) = analyser s"
  by (simp add: destroy_def)

lemma audioRendered_idle:
  "\<not> (\<exists>c. audioContext s = Some c \<and> state c = running) \<Longrightarrow> audioRendered d s = s"
  by (auto simp: audioRendered_def split: option.splits)

lemma suspend_context_idle: "\<not> (\<exists>c. audioContext (suspend s) = Some c \<and> state c = running)"
  by (auto simp: suspend_def Let_def split: option.splits if_splits)

text \<open>
  Claim C7, as stated, fails. An engine is started, the platform renders audio and leaves
  the value 200 in all 512 bins of the analyser, and the engine is suspended (or
  destroyed): the engine does not run, and the analyser that \<^verbatim>\<open>getAnalyser()\<close> returns
  still reports the 512 values 200.
\<close>

theorem stale_spectrum_counterexample:
  "\<not> isRunning (run [Call okPlatform Start, AudioRendered (replicate 512 200),
       Call okPlatform Suspend] newEngine) \<and>
   map_option getByteFrequencyData (getAnalyser (run [Call okPlatform Start,
       AudioRendered (replicate 512 200), Call okPlatform Suspend] newEngine))
     = Some (replicate 512 200) \<and>
   \<not> isRunning (run [Call okPlatform Start, AudioRendered (replicate 512 200),
       Call okPlatform Destroy] newEngine) \<and>
   map_option getByteFrequencyData (getAnalyser (run [Call okPlatform Start,
       AudioRendered (replicate 512 200), Call okPlatform Destroy] newEngine))
     = Some (replicate 512 200)"
proof -
  let ?s = "snd (start okPlatform newEngine)"
  have a: "analyser ?s = Some newAnalyser"
    by (rule start_fresh_analyser) (simp add: newEngine_def)
  have "analyser (audioRendered (replicate 512 200) ?s)
      = Some (newAnalyser\<lparr>frequencyData := replicate 512 200\<rparr>)"
    using audioRendered_running [OF started_facts(1) a] by simp
  then show ?thesis
    by (simp add: getAnalyser_def getByteFrequencyData_def suspend_frame destroy_analyser
        noContext_not_running destroy_context)
qed

text \<open>
  Claim C7, amended. After \<^verbatim>\<open>suspend()\<close> and after \<^verbatim>\<open>destroy()\<close> the engine reports
  that it is not running, and \<^verbatim>\<open>getAnalyser()\<close> returns the analyser node exactly as it
  was before, with the frequency data it held; the platform does not refresh the data
  while the context is not running.
\<close>

theorem analyser_kept_when_not_running:
  "\<not> isRunning (suspend s) \<and> \<not> isRunning (destroy s) \<and>
   getAnalyser (suspend s) = getAnalyser s \<and> getAnalyser (destroy s) = getAnalyser s \<and>
   getAnalyser (audioRendered d (suspend s)) = getAnalyser s \<and>
   getAnalyser (audioRendered d (destroy s)) = getAnalyser s"
proof -
  have 1: "audioRendered d (suspend s) = suspend s"
    by (rule audioRendered_idle) (rule suspend_context_idle)
  have 2: "audioRendered d (destroy s) = destroy s"
    by (rule audioRendered_idle) (simp add: destroy_context)
  show ?thesis
    by (simp add: 1 2 getAnalyser_def suspend_frame destroy_analyser noContext_not_running
        destroy_context)
qed

subsection \<open>The speech-focus example\<close>

text \<open>
  Claim C8. With the profile named "Speech Focus Profile" (bands -2, 4, 6, 4, 0), mode
  CONVERSATION and bypass off, the filter of the 2000 Hz band gets the gain target 18:
  the profile gives 6, the speech-focus boost 8 and the preset offset 8, and the sum 22
  is clamped to 18.
\<close>

theorem speech_focus_conversation_2000:
  "pvalue (bq_frequency (eqFilters (run [Call okPlatform Start,
       Call okPlatform (SetEnvironment CONVERSATION),
       Call okPlatform (SetProfile speechFocusProfile)] newEngine) ! 2)) = 2000 \<and>
   ptarget (bq_gain (eqFilters (run [Call okPlatform Start,
       Call okPlatform (SetEnvironment CONVERSATION),
       Call okPlatform (SetProfile speechFocusProfile)] newEngine) ! 2)) = Some 18 \<and>
   orZero (eqBands speechFocusProfile 2000) = 6 \<and>
   specificBoost (toLowerCase (name speechFocusProfile)) (Some 2000) = 8 \<and>
   orZero (eqOffsets (ENV_PRESETS CONVERSATION) 2000) = 8 \<and>
   max (-18) (min 18 ((6::real) + 8 + 8)) = 18"
proof -
  let ?e = "run [Call okPlatform Start, Call okPlatform (SetEnvironment CONVERSATION)] newEngine"
  let ?t = "?e\<lparr>currentProfile := Some speechFocusProfile\<rparr>"
  have c: "audioContext ?e \<noteq> None"
    by (simp add: setEnvironment_frame start_context)
  have g: "graphBuilt ?t"
    using reachable_graphBuilt [OF c] by (simp add: graphBuilt_flags)
  have h: "audioContext ?t \<noteq> None" "currentProfile ?t = Some speechFocusProfile"
    "\<not> isBypassed ?t" "currentMode ?t = CONVERSATION"
    using c by (simp_all add: setEnvironment_frame started_facts)
  have i: "(2::nat) < length EQ_FREQUENCIES" "EQ_FREQUENCIES ! 2 = 2000"
    by (simp_all add: EQ_FREQUENCIES_def)
  have b: "specificBoost (toLowerCase (name speechFocusProfile)) (Some 2000) = 8"
    by (simp add: speechFocusProfile_def lower_speech specificBoost_def lookup_def
        orZero_def SPEECH_FOCUS_BOOSTS_def)
  have p: "orZero (eqBands speechFocusProfile 2000) = 6"
    "orZero (eqOffsets (ENV_PRESETS CONVERSATION) 2000) = 8"
    by (simp_all add: orZero_def speechFocusProfile_def)
  have "pvalue (bq_frequency (eqFilters (applySettings ?t) ! 2)) = 2000 \<and>
      ptarget (bq_gain (eqFilters (applySettings ?t) ! 2)) = Some 18"
    using applySettings_band [OF g h(1,2,3) i(1)]
    by (simp add: i(2) setEnvironment_frame b p)
      (simp add: orZero_def speechFocusProfile_def)
  then show ?thesis
    by (simp add: setProfile_def b) (simp add: orZero_def speechFocusProfile_def)
qed

end
